theory Spec2Isabelle
  imports Complex_Main
begin

section \<open>Scope\<close>

text \<open>
  A model of the embedding and matching engine: the request limiter, the embedding
  service, the similarity queries, the matching services and the embedding refresh task.
  Each function is its source function, traced with Python's rules for everything the
  repository defines: a call whose arguments the callee cannot bind raises \<open>TypeError\<close>,
  an attribute or method that no class defines raises \<open>AttributeError\<close>, a name that no
  import binds raises \<open>NameError\<close> or \<open>ImportError\<close>. State is passed explicitly.
  Redis commands, the ORM queries built with \<open>select\<close>, the tokenizer and the embedding
  provider are read by their contracts: a call either answers or raises. Times are whole
  seconds; texts are lists of Unicode code points.
\<close>

section \<open>Errors\<close>

text \<open>The exceptions that leave the modelled functions, by class. \<open>AttributeError\<close> carries
  the attribute that is missing, \<open>TypeError\<close> the callee, \<open>NameError\<close> and
  \<open>ImportError\<close> the name.\<close>

datatype error =
    AttributeError string
  | TypeError string
  | NameError string
  | ImportError string
  | ValueError string
  | ZeroDivisionError
  | RedisError
  | ArgumentError
  | ExternalError string      \<comment> \<open>any other exception raised by a collaborator\<close>

text \<open>
  The exception classes of \<^verbatim>\<open>app/core/exceptions.py\<close>. \<open>JobMatchingError.__init__\<close>
  calls \<open>self._log_error(message)\<close> before \<open>super().__init__(...)\<close>, and
  \<open>_log_error\<close> reads \<open>self.context\<close>, which only \<open>BaseError.__init__\<close> sets: building
  an instance of \<open>JobMatchingError\<close> or of a subclass raises \<open>AttributeError\<close>. So a
  statement \<open>raise RateLimitError(message)\<close> ends in that \<open>AttributeError\<close>, and so do
  \<open>OpenAIError(message)\<close> and \<open>DatabaseError(message=..., ...)\<close>. \<open>ValidationError\<close>
  requires a second positional parameter \<open>field\<close>, which no call in
  \<^verbatim>\<open>embeddings.py\<close> passes, and \<open>UserError\<close> accepts no \<open>error_code\<close> keyword: these
  calls raise \<open>TypeError\<close> before any constructor body runs. Each definition below is the
  exception that leaves the \<open>raise\<close> statement.
\<close>

definition JobMatchingError_init :: error where
  "JobMatchingError_init = AttributeError ''context''"

definition raise_RateLimitError :: "string \<Rightarrow> error" where
  "raise_RateLimitError message = JobMatchingError_init"

definition raise_OpenAIError :: "string \<Rightarrow> error" where
  "raise_OpenAIError message = JobMatchingError_init"

definition raise_DatabaseError :: "string \<Rightarrow> error" where
  "raise_DatabaseError message = JobMatchingError_init"

definition raise_ValidationError :: "string \<Rightarrow> error" where
  "raise_ValidationError message = TypeError ''ValidationError''"

definition raise_UserError :: "string \<Rightarrow> string \<Rightarrow> error" where
  "raise_UserError message error_code = TypeError ''UserError''"

section \<open>The shared counter store\<close>

text \<open>
  The Redis commands used by the limiter, over an explicit store. A key holds an integer
  and an optional absolute expiry time; a key whose expiry time has been reached is gone.
  The store may refuse commands: a refused command raises \<open>redis.RedisError\<close> and
  changes nothing. One call of the limiter issues each kind of command at most once, so
  a refusal per kind covers every way in which the commands of one call can fail. The
  store is \<open>up\<close> when it refuses nothing. Each command returns the store it leaves behind.
\<close>

datatype redis_command = INCR | EXPIREAT | GET | TTL

record counter_store =
  refused :: "redis_command \<Rightarrow> bool"
  entries :: "string \<Rightarrow> (int \<times> nat option) option"

definition up :: "counter_store \<Rightarrow> bool" where
  "up st = (\<not> refused st INCR \<and> \<not> refused st EXPIREAT \<and> \<not> refused st GET \<and> \<not> refused st TTL)"

definition live :: "counter_store \<Rightarrow> nat \<Rightarrow> string \<Rightarrow> (int \<times> nat option) option" where
  "live st now k =
     (case entries st k of
        None \<Rightarrow> None
      | Some (c, None) \<Rightarrow> Some (c, None)
      | Some (c, Some e) \<Rightarrow> if now < e then Some (c, Some e) else None)"

definition redis_get :: "counter_store \<Rightarrow> nat \<Rightarrow> string \<Rightarrow> error + (int option \<times> counter_store)" where
  "redis_get st now k =
     (if refused st GET then Inl RedisError
      else Inr (map_option fst (live st now k), st))"

definition redis_ttl :: "counter_store \<Rightarrow> nat \<Rightarrow> string \<Rightarrow> error + (int \<times> counter_store)" where
  "redis_ttl st now k =
     (if refused st TTL then Inl RedisError
      else Inr (case live st now k of
                  None \<Rightarrow> - 2
                | Some (c, None) \<Rightarrow> - 1
                | Some (c, Some e) \<Rightarrow> int e - int now, st))"

definition redis_incr :: "counter_store \<Rightarrow> nat \<Rightarrow> string \<Rightarrow> error + (int \<times> counter_store)" where
  "redis_incr st now k =
     (if refused st INCR then Inl RedisError
      else (case live st now k of
              None \<Rightarrow> Inr (1, st\<lparr>entries := (entries st)(k \<mapsto> (1, None))\<rparr>)
            | Some (c, e) \<Rightarrow> Inr (c + 1, st\<lparr>entries := (entries st)(k \<mapsto> (c + 1, e))\<rparr>)))"

definition redis_expireat :: "counter_store \<Rightarrow> nat \<Rightarrow> string \<Rightarrow> nat \<Rightarrow> error + counter_store" where
  "redis_expireat st now k t =
     (if refused st EXPIREAT then Inl RedisError
      else (case live st now k of
              None \<Rightarrow> Inr st
            | Some (c, e) \<Rightarrow>
                if t \<le> now then Inr (st\<lparr>entries := (entries st)(k := None)\<rparr>)
                else Inr (st\<lparr>entries := (entries st)(k \<mapsto> (c, Some t))\<rparr>)))"

definition current_count :: "counter_store \<Rightarrow> nat \<Rightarrow> string \<Rightarrow> int" where
  "current_count st now k = (case live st now k of None \<Rightarrow> 0 | Some (c, e) \<Rightarrow> c)"

section \<open>The rate limiter (\<^verbatim>\<open>app/core/rate_limit.py\<close>)\<close>

record rate_limiter =
  key_prefix :: string
  max_requests :: int
  window_seconds :: nat
  redis :: bool      \<comment> \<open>whether \<open>self.redis\<close> has been set by \<open>init\<close>\<close>

record rate_limit_info =
  remaining :: int
  reset_at :: nat
  total :: int

definition get_key :: "rate_limiter \<Rightarrow> string \<Rightarrow> string" where
  "get_key rl identifier = key_prefix rl @ '':'' @ identifier"

definition window_start :: "rate_limiter \<Rightarrow> nat \<Rightarrow> nat" where
  "window_start rl now = now - now mod window_seconds rl"

definition get_limit_info ::
  "rate_limiter \<Rightarrow> counter_store \<Rightarrow> nat \<Rightarrow> string \<Rightarrow> (error + rate_limit_info) \<times> counter_store" where
  "get_limit_info rl st now identifier =
     (if \<not> redis rl then (Inl (raise_RateLimitError ''Rate limiter not initialized''), st)
      else if window_seconds rl = 0 then (Inl ZeroDivisionError, st)
      else
        (case redis_get st now (get_key rl identifier) of
           Inl e \<Rightarrow> (Inl e, st)
         | Inr (count, st1) \<Rightarrow>
            (case redis_ttl st1 now (get_key rl identifier) of
               Inl e \<Rightarrow> (Inl e, st1)
             | Inr (ttl, st2) \<Rightarrow>
                (case count of
                   None \<Rightarrow>
                     (Inr \<lparr>remaining = max_requests rl,
                           reset_at = window_start rl now + window_seconds rl,
                           total = max_requests rl\<rparr>, st2)
                 | Some c \<Rightarrow>
                     (Inr \<lparr>remaining = max 0 (max_requests rl - c),
                           reset_at = window_start rl now + window_seconds rl,
                           total = max_requests rl\<rparr>, st2)))))"

text \<open>
  \<open>acquire\<close>. The window arithmetic runs before the \<open>try\<close>. Inside it, a
  \<open>redis.RedisError\<close> of any command reaches the handler, whose
  \<open>raise RateLimitError("Failed to check rate limit")\<close> ends in the constructor's
  exception; the \<open>raise RateLimitError(...)\<close> of an exhausted budget ends in the same
  exception, which is no \<open>RedisError\<close> and passes the handler.
\<close>

definition acquire ::
  "rate_limiter \<Rightarrow> counter_store \<Rightarrow> nat \<Rightarrow> string \<Rightarrow> (error + unit) \<times> counter_store" where
  "acquire rl st now identifier =
     (if \<not> redis rl then (Inl (raise_RateLimitError ''Rate limiter not initialized''), st)
      else if window_seconds rl = 0 then (Inl ZeroDivisionError, st)
      else
        (case redis_incr st now (get_key rl identifier) of
           Inl e \<Rightarrow> (Inl (raise_RateLimitError ''Failed to check rate limit''), st)
         | Inr (count, st1) \<Rightarrow>
            (case (if count = 1
                   then redis_expireat st1 now (get_key rl identifier)
                          (window_start rl now + window_seconds rl)
                   else Inr st1) of
               Inl e \<Rightarrow> (Inl (raise_RateLimitError ''Failed to check rate limit''), st1)
             | Inr st2 \<Rightarrow>
                 if count > max_requests rl then
                   (case get_limit_info rl st2 now identifier of
                      (Inl RedisError, st3) \<Rightarrow>
                         (Inl (raise_RateLimitError ''Failed to check rate limit''), st3)
                    | (Inl e, st3) \<Rightarrow> (Inl e, st3)
                    | (Inr info, st3) \<Rightarrow> (Inl (raise_RateLimitError ''Rate limit exceeded''), st3))
                 else (Inr (), st2))))"

text \<open>A run of \<open>acquire\<close> calls at the given times, oldest first.\<close>

fun acquire_all ::
  "rate_limiter \<Rightarrow> counter_store \<Rightarrow> nat list \<Rightarrow> string \<Rightarrow> (error + unit) list \<times> counter_store" where
  "acquire_all rl st [] identifier = ([], st)"
| "acquire_all rl st (t # ts) identifier =
     (case acquire rl st t identifier of
        (r, st1) \<Rightarrow> (case acquire_all rl st1 ts identifier of (rs, st2) \<Rightarrow> (r # rs, st2)))"

text \<open>A run of \<open>get_limit_info\<close> calls at the given times; only the store is kept.\<close>

fun get_limit_info_all :: "rate_limiter \<Rightarrow> counter_store \<Rightarrow> nat list \<Rightarrow> string \<Rightarrow> counter_store" where
  "get_limit_info_all rl st [] identifier = st"
| "get_limit_info_all rl st (t # ts) identifier =
     get_limit_info_all rl (snd (get_limit_info rl st t identifier)) ts identifier"

section \<open>The embedding service (\<^verbatim>\<open>app/services/embeddings.py\<close>)\<close>

text \<open>
  A text is the list of its code points. \<open>py_isspace\<close> is \<open>str.isspace\<close> on one
  character, which is what \<open>str.strip()\<close> removes at both ends. The tokenizer
  (\<open>tiktoken\<close>) and the provider call (\<open>openai.Embedding.acreate\<close>) are outside the
  repository and are parameters: \<open>encode\<close> maps a text to its tokens or to the exception
  it raises (\<open>ValueError\<close> on a text that holds a special token), \<open>provider\<close> maps the
  request text to the returned vector or to the exception raised.
\<close>

type_synonym py_str = "nat list"

definition py_isspace :: "nat \<Rightarrow> bool" where
  "py_isspace n =
     ((9 \<le> n \<and> n \<le> 13) \<or> (28 \<le> n \<and> n \<le> 32) \<or> n = 133 \<or> n = 160 \<or> n = 5760
      \<or> (8192 \<le> n \<and> n \<le> 8202) \<or> n = 8232 \<or> n = 8233 \<or> n = 8239 \<or> n = 8287
      \<or> n = 12288)"

definition py_strip :: "py_str \<Rightarrow> py_str" where
  "py_strip s = rev (dropWhile py_isspace (rev (dropWhile py_isspace s)))"

definition replace_newlines :: "py_str \<Rightarrow> py_str" where
  "replace_newlines s = map (\<lambda>c. if c = 10 then 32 else c) s"

definition max_text_length :: nat where
  "max_text_length = 8191"

definition validate_text :: "(py_str \<Rightarrow> error + nat list) \<Rightarrow> py_str \<Rightarrow> error + py_str" where
  "validate_text encode text =
     (if text = [] then Inl (raise_ValidationError ''Text must be a non-empty string'')
      else
        (let cleaned = py_strip (replace_newlines text)
         in case encode cleaned of
              Inl e \<Rightarrow> Inl e
            | Inr tokens \<Rightarrow>
                if length tokens > max_text_length
                then Inl (raise_ValidationError ''Text is too long'')
                else Inr cleaned))"

text \<open>The body of \<open>generate_embedding\<close>. No exception that reaches its handlers is an
  instance of \<open>ValidationError\<close> (none can be built), so each goes to
  \<open>except Exception\<close>, whose \<open>raise OpenAIError(...)\<close> ends in the constructor's
  exception. The provider's vector is returned as it came.\<close>

definition generate_embedding_body ::
  "(py_str \<Rightarrow> error + nat list) \<Rightarrow> (py_str \<Rightarrow> error + real list) \<Rightarrow> py_str \<Rightarrow> error + real list" where
  "generate_embedding_body encode provider text =
     (case validate_text encode text of
        Inl e \<Rightarrow> Inl (raise_OpenAIError ''Failed to generate embedding'')
      | Inr cleaned \<Rightarrow>
         (case provider cleaned of
            Inl e \<Rightarrow> Inl (raise_OpenAIError ''Failed to generate embedding'')
          | Inr embedding \<Rightarrow> Inr embedding))"

text \<open>\<open>RateLimiter.__call__\<close>: the wrapper acquires under the wrapped function's name and
  only then runs the function; every exception is re-raised.\<close>

definition rate_limited ::
  "rate_limiter \<Rightarrow> string \<Rightarrow> (error + 'a) \<Rightarrow> counter_store \<Rightarrow> nat \<Rightarrow> (error + 'a) \<times> counter_store" where
  "rate_limited rl func_name body st now =
     (case acquire rl st now func_name of
        (Inl e, st1) \<Rightarrow> (Inl e, st1)
      | (Inr u, st1) \<Rightarrow> (body, st1))"

definition generate_embedding ::
  "rate_limiter \<Rightarrow> (py_str \<Rightarrow> error + nat list) \<Rightarrow> (py_str \<Rightarrow> error + real list) \<Rightarrow>
   counter_store \<Rightarrow> nat \<Rightarrow> py_str \<Rightarrow> (error + real list) \<times> counter_store" where
  "generate_embedding rl encode provider st now text =
     rate_limited rl ''generate_embedding'' (generate_embedding_body encode provider text) st now"

section \<open>The relational store\<close>

text \<open>
  The rows the matching code reads and writes, with the columns of the models in
  \<^verbatim>\<open>app/models\<close>. \<open>job_embeddings\<close> is the table of that name keyed by \<open>job_id\<close>; a
  missing entry stands for both a missing row and a \<open>NULL\<close> embedding, which the queries
  treat alike. Preferences are dictionaries, kept as association lists. Similarity scores
  are reals.
\<close>

record job =
  job_id :: nat
  job_title :: string
  location :: string
  service :: string
  seniority :: string
  description :: string
  is_indexed :: bool
  embedding :: "real list option"

record cv =
  cv_id :: nat
  cv_user_id :: nat
  cv_created_at :: nat
  cv_vector :: "real list option"

record user =
  user_id :: nat
  telegram_id :: nat
  cv_text :: "string option"
  cv_embedding :: "real list option"
  preferences :: "(string \<times> string) list option"

record job_match =
  jm_id :: nat
  jm_telegram_id :: nat
  jm_job_id :: nat
  jm_score :: real

record database =
  users :: "user list"
  jobs :: "job list"
  job_embeddings :: "nat \<Rightarrow> real list option"
  cvs :: "cv list"
  job_matches :: "job_match list"

section \<open>Similarity search\<close>

text \<open>
  The SQL statement that \<open>JobRepository.find_similar_jobs\<close> builds, read as relational
  algebra: the \<open>WHERE\<close> clause filters the joined rows, \<open>ORDER BY similarity DESC\<close> sorts
  them, \<open>LIMIT\<close> keeps a prefix. The pgvector operator \<open><=>\<close> and \<open>ILIKE\<close> belong to
  the database and are the parameters \<open>distance\<close> and \<open>ilike\<close> (value first, pattern
  second). An optional filter is added when its argument is neither \<open>None\<close> nor the
  empty string.
\<close>

definition order_by_desc :: "('a \<times> real) list \<Rightarrow> ('a \<times> real) list" where
  "order_by_desc rows = sort_key (\<lambda>r. - snd r) rows"

definition like_filter :: "(string \<Rightarrow> string \<Rightarrow> bool) \<Rightarrow> string option \<Rightarrow> string \<Rightarrow> bool" where
  "like_filter ilike param v =
     (case param of
        None \<Rightarrow> True
      | Some x \<Rightarrow> if x = [] then True else ilike v (''%'' @ x @ ''%''))"

definition similar_rows ::
  "(real list \<Rightarrow> real list \<Rightarrow> real) \<Rightarrow> database \<Rightarrow> real list \<Rightarrow> (job \<times> real) list" where
  "similar_rows distance db q =
     concat (map (\<lambda>j. case job_embeddings db (job_id j) of
                        None \<Rightarrow> []
                      | Some e \<Rightarrow> [(j, 1 - distance e q)]) (jobs db))"

definition similar_jobs_sql ::
  "(real list \<Rightarrow> real list \<Rightarrow> real) \<Rightarrow> (string \<Rightarrow> string \<Rightarrow> bool) \<Rightarrow> database \<Rightarrow> real list \<Rightarrow>
   real \<Rightarrow> nat \<Rightarrow> string option \<Rightarrow> string option \<Rightarrow> string option \<Rightarrow> (job \<times> real) list" where
  "similar_jobs_sql distance ilike db q min_similarity limit loc sen srv =
     take limit (order_by_desc
       (filter (\<lambda>(j, s). s \<ge> min_similarity
                        \<and> like_filter ilike loc (location j)
                        \<and> like_filter ilike sen (seniority j)
                        \<and> like_filter ilike srv (service j))
               (similar_rows distance db q)))"

text \<open>
  \<open>find_similar_jobs\<close> hands that statement to \<open>AsyncSession.execute\<close> as a plain
  \<open>str\<close>, which \<open>execute\<close> refuses (\<open>ArgumentError\<close>: textual SQL must be wrapped in
  \<open>text()\<close>); the next statement awaits \<open>result.all()\<close>, which is a list. No call
  returns rows. \<open>pairs_returned\<close> is what a call hands to its caller.
\<close>

definition execute_str :: "'a \<Rightarrow> error + 'a" where
  "execute_str rows = Inl ArgumentError"

definition find_similar_jobs ::
  "(real list \<Rightarrow> real list \<Rightarrow> real) \<Rightarrow> (string \<Rightarrow> string \<Rightarrow> bool) \<Rightarrow> database \<Rightarrow> real list \<Rightarrow>
   real \<Rightarrow> nat \<Rightarrow> string option \<Rightarrow> string option \<Rightarrow> string option \<Rightarrow> error + (job \<times> real) list" where
  "find_similar_jobs distance ilike db q min_similarity limit loc sen srv =
     (case execute_str (similar_jobs_sql distance ilike db q min_similarity limit loc sen srv) of
        Inl e \<Rightarrow> Inl e
      | Inr rows \<Rightarrow> Inl (TypeError ''await''))"







section \<open>Matching (\<^verbatim>\<open>app/services/job_matching.py\<close>)\<close>

text \<open>
  \<open>UserRepository.get_by_telegram_id\<close>: \<open>scalar_one_or_none\<close> raises when more than one
  row matches, and the handler's \<open>raise DatabaseError(...)\<close> ends in the constructor's
  exception.
\<close>

definition get_by_telegram_id :: "database \<Rightarrow> nat \<Rightarrow> error + user option" where
  "get_by_telegram_id db tid =
     (case filter (\<lambda>u. telegram_id u = tid) (users db) of
        [] \<Rightarrow> Inr None
      | [u] \<Rightarrow> Inr (Some u)
      | u # v # rest \<Rightarrow> Inl (raise_DatabaseError ''Failed to get user by telegram_id''))"

record match_dict =
  md_job_id :: nat
  md_score :: real
  md_job_title :: string
  md_location :: string
  md_service :: string
  md_seniority :: string
  md_description :: string

text \<open>
  \<open>JobMatchingService\<close> defines \<open>search_jobs\<close> twice; the later definition, the one
  taking an embedding, is the method of the class. It and \<open>save_job_matches\<close> begin with
  \<open>await self._get_repos()\<close>, a method that neither the class nor \<open>BaseService\<close>
  defines. Each method of the service starts with the guard
  \<open>if not self.initialized: await self.init()\<close>; \<open>matching_init\<close> is the outcome of
  that guard (\<open>None\<close> when the service is initialised or its \<open>init\<close> answers).
\<close>

definition init_guard :: "error option \<Rightarrow> error + unit" where
  "init_guard matching_init = (case matching_init of Some e \<Rightarrow> Inl e | None \<Rightarrow> Inr ())"

definition get_repos :: "error + unit" where
  "get_repos = Inl (AttributeError ''_get_repos'')"

definition search_jobs ::
  "error option \<Rightarrow> (real list \<Rightarrow> real list \<Rightarrow> real) \<Rightarrow> (string \<Rightarrow> string \<Rightarrow> bool) \<Rightarrow> database \<Rightarrow>
   real list \<Rightarrow> (string \<times> string) list \<Rightarrow> nat \<Rightarrow> error + match_dict list" where
  "search_jobs matching_init distance ilike db q prefs limit =
     (case (case init_guard matching_init of Inl e \<Rightarrow> Inl e | Inr u \<Rightarrow> get_repos) of
        Inl e \<Rightarrow> Inl e
      | Inr repos \<Rightarrow>
         (let loc = (if prefs \<noteq> [] then map_of prefs ''location'' else None);
              srv = (if prefs \<noteq> [] then map_of prefs ''service'' else None)
          in case find_similar_jobs distance ilike db q (7 / 10) limit loc None srv of
               Inl e \<Rightarrow> Inl e
             | Inr rows \<Rightarrow>
                 Inr (map (\<lambda>(j, s). \<lparr>md_job_id = job_id j, md_score = s,
                                      md_job_title = job_title j, md_location = location j,
                                      md_service = service j, md_seniority = seniority j,
                                      md_description = description j\<rparr>) rows)))"

text \<open>\<open>JobMatchRepository.create_match\<close> inserts a row; the primary key is fresh.\<close>

definition next_match_id :: "database \<Rightarrow> nat" where
  "next_match_id db = Suc (fold max (map jm_id (job_matches db)) 0)"

definition create_match :: "database \<Rightarrow> nat \<Rightarrow> nat \<Rightarrow> real \<Rightarrow> job_match \<times> database" where
  "create_match db tid jid score =
     (let row = \<lparr>jm_id = next_match_id db, jm_telegram_id = tid, jm_job_id = jid, jm_score = score\<rparr>
      in (row, db\<lparr>job_matches := job_matches db @ [row]\<rparr>))"

fun save_rows :: "database \<Rightarrow> nat \<Rightarrow> match_dict list \<Rightarrow> match_dict list \<times> database" where
  "save_rows db tid [] = ([], db)"
| "save_rows db tid (m # ms) =
     (case create_match db tid (md_job_id m) (md_score m) of
        (row, db1) \<Rightarrow>
          (case save_rows db1 tid ms of
             (saved, db2) \<Rightarrow> (m\<lparr>md_job_id := jm_job_id row, md_score := jm_score row\<rparr> # saved, db2)))"

definition save_job_matches ::
  "error option \<Rightarrow> database \<Rightarrow> nat \<Rightarrow> match_dict list \<Rightarrow> (error + match_dict list) \<times> database" where
  "save_job_matches matching_init db tid matches =
     (case (case init_guard matching_init of Inl e \<Rightarrow> Inl e | Inr u \<Rightarrow> get_repos) of
        Inl e \<Rightarrow> (Inl e, db)
      | Inr repos \<Rightarrow> (case save_rows db tid matches of (saved, db1) \<Rightarrow> (Inr saved, db1)))"

definition generate_job_matches ::
  "error option \<Rightarrow> (real list \<Rightarrow> real list \<Rightarrow> real) \<Rightarrow> (string \<Rightarrow> string \<Rightarrow> bool) \<Rightarrow> database \<Rightarrow>
   nat \<Rightarrow> real list \<Rightarrow> (string \<times> string) list \<Rightarrow> (error + match_dict list) \<times> database" where
  "generate_job_matches matching_init distance ilike db tid q prefs =
     (case init_guard matching_init of
        Inl e \<Rightarrow> (Inl e, db)
      | Inr u \<Rightarrow>
         (case search_jobs matching_init distance ilike db q prefs 50 of
            Inl e \<Rightarrow> (Inl e, db)
          | Inr matches \<Rightarrow> save_job_matches matching_init db tid matches))"

text \<open>
  \<open>_should_generate_recommendations\<close> reads \<open>user.last_recommendations\<close>; \<open>User\<close>
  has no such attribute. Every exception inside the \<open>try\<close> of
  \<open>generate_recommendations\<close> meets \<open>except SQLAlchemyError\<close>, a name the module never
  imports. \<open>init_raises\<close> is the outcome of \<open>self.init()\<close> when the service has to be
  initialised first (\<open>None\<close> when it answers or is not needed).
\<close>

definition should_generate_recommendations :: "user \<Rightarrow> error + bool" where
  "should_generate_recommendations u = Inl (AttributeError ''last_recommendations'')"

definition except_SQLAlchemyError :: "(error + 'a) \<times> database \<Rightarrow> (error + 'a) \<times> database" where
  "except_SQLAlchemyError r =
     (case r of
        (Inl e, db) \<Rightarrow> (Inl (NameError ''SQLAlchemyError''), db)
      | (Inr x, db) \<Rightarrow> (Inr x, db))"

definition generate_recommendations ::
  "error option \<Rightarrow> error option \<Rightarrow> (real list \<Rightarrow> real list \<Rightarrow> real) \<Rightarrow> (string \<Rightarrow> string \<Rightarrow> bool) \<Rightarrow>
   database \<Rightarrow> nat \<Rightarrow> real list option \<Rightarrow> (string \<times> string) list option \<Rightarrow> bool \<Rightarrow>
   (error + match_dict list) \<times> database" where
  "generate_recommendations init_raises matching_init distance ilike db tid cv_emb prefs_arg force =
     except_SQLAlchemyError
       (case init_raises of
          Some e \<Rightarrow> (Inl e, db)
        | None \<Rightarrow>
           (case get_by_telegram_id db tid of
              Inl e \<Rightarrow> (Inl e, db)
            | Inr None \<Rightarrow> (Inl (raise_UserError ''User not found'' ''USER_NOT_FOUND''), db)
            | Inr (Some u) \<Rightarrow>
               (case (if force then Inr False
                      else map_sum id Not (should_generate_recommendations u)) of
                  Inl e \<Rightarrow> (Inl e, db)
                | Inr True \<Rightarrow> (Inr [], db)
                | Inr False \<Rightarrow>
                   (let own = (case cv_embedding u of None \<Rightarrow> [] | Some q \<Rightarrow> q);
                        given = (case cv_emb of None \<Rightarrow> [] | Some q \<Rightarrow> q);
                        stored = (case preferences u of None \<Rightarrow> [] | Some p \<Rightarrow> p);
                        prefs = (case prefs_arg of
                                   None \<Rightarrow> stored
                                 | Some p \<Rightarrow> if p \<noteq> [] then p else stored)
                    in if given = [] \<and> own = []
                       then (Inl (raise_UserError ''No CV embedding found'' ''NO_CV_EMBEDDING''), db)
                       else generate_job_matches matching_init distance ilike db tid
                              (if given \<noteq> [] then given else own) prefs))))"

section \<open>The embedding refresh task (\<^verbatim>\<open>app/tasks/jobs.py\<close>)\<close>

text \<open>
  The module opens with \<open>from app.core.exceptions import JobProcessingError\<close>, a name
  that \<^verbatim>\<open>exceptions.py\<close> does not define, so loading it raises \<open>ImportError\<close> and a
  call of the task, which loads the module first, ends there. The function body, were
  it entered: it reads the work queue through
  \<open>job_repo.get_jobs_needing_embedding_update\<close>, a method \<open>JobRepository\<close> does not
  define; the outer handler re-raises and \<open>finally\<close> closes the session. The loop
  behind it builds the text of a job from \<open>job.company_name\<close> and
  \<open>job.requirements\<close>, attributes \<open>Job\<close> does not have. The embedding call \<open>gen\<close>
  (\<open>OpenAIService.generate_embedding\<close>), the flush of one row, the commit and the close
  of the session are collaborators: each either answers or raises; the constructors that
  open the body (\<open>AsyncSession()\<close>, \<open>JobRepository(db)\<close>, \<open>OpenAIService()\<close>) are
  taken to answer.
\<close>

datatype summary_value = SBool bool | SInt nat

definition tasks_jobs_module :: "error + unit" where
  "tasks_jobs_module = Inl (ImportError ''JobProcessingError'')"

definition get_jobs_needing_embedding_update :: "database \<Rightarrow> nat \<Rightarrow> error + job list" where
  "get_jobs_needing_embedding_update db batch_size =
     Inl (AttributeError ''get_jobs_needing_embedding_update'')"

definition job_text :: "job \<Rightarrow> error + string" where
  "job_text j = Inl (AttributeError ''company_name'')"

definition refresh_item ::
  "(string \<Rightarrow> error + real list) \<Rightarrow> (job \<Rightarrow> error option) \<Rightarrow> job \<Rightarrow> error + job" where
  "refresh_item gen flush j =
     (case job_text j of
        Inl e \<Rightarrow> Inl e
      | Inr t \<Rightarrow>
         (case gen t of
            Inl e \<Rightarrow> Inl e
          | Inr v \<Rightarrow>
             (case flush (j\<lparr>embedding := Some v\<rparr>) of
                Some e \<Rightarrow> Inl e
              | None \<Rightarrow> Inr (j\<lparr>embedding := Some v\<rparr>))))"

fun refresh_loop ::
  "(string \<Rightarrow> error + real list) \<Rightarrow> (job \<Rightarrow> error option) \<Rightarrow> job list \<Rightarrow> nat \<Rightarrow> nat" where
  "refresh_loop gen flush [] updated_count = updated_count"
| "refresh_loop gen flush (j # js) updated_count =
     (case refresh_item gen flush j of
        Inl e \<Rightarrow> refresh_loop gen flush js updated_count
      | Inr j1 \<Rightarrow> refresh_loop gen flush js (updated_count + 1))"

definition finally_close :: "error option \<Rightarrow> error + 'a \<Rightarrow> error + 'a" where
  "finally_close close r = (case close of Some e \<Rightarrow> Inl e | None \<Rightarrow> r)"

definition update_job_embeddings ::
  "(string \<Rightarrow> error + real list) \<Rightarrow> (job \<Rightarrow> error option) \<Rightarrow> error option \<Rightarrow> error option \<Rightarrow>
   database \<Rightarrow> nat \<Rightarrow> error + (string \<times> summary_value) list" where
  "update_job_embeddings gen flush commit close db batch_size =
     finally_close close
       (case get_jobs_needing_embedding_update db batch_size of
          Inl e \<Rightarrow> Inl e
        | Inr js \<Rightarrow>
           (case commit of
              Some e \<Rightarrow> Inl e
            | None \<Rightarrow> Inr [(''success'', SBool True),
                           (''updated_count'', SInt (refresh_loop gen flush js 0))]))"

definition run_update_job_embeddings ::
  "(string \<Rightarrow> error + real list) \<Rightarrow> (job \<Rightarrow> error option) \<Rightarrow> error option \<Rightarrow> error option \<Rightarrow>
   database \<Rightarrow> nat \<Rightarrow> error + (string \<times> summary_value) list" where
  "run_update_job_embeddings gen flush commit close db batch_size =
     (case tasks_jobs_module of
        Inl e \<Rightarrow> Inl e
      | Inr loaded \<Rightarrow> update_job_embeddings gen flush commit close db batch_size)"

section \<open>Concrete collaborators and inputs\<close>

text \<open>
  The limiter instance of the module, \<open>OpenAIRateLimiter\<close> after \<open>init\<close>: prefix
  \<open>openai\<close>, \<open>OPENAI_RATE_LIMIT_RPM = 60\<close> requests per window of 60 seconds.
\<close>

definition openai_rate_limiter :: rate_limiter where
  "openai_rate_limiter =
     \<lparr>key_prefix = ''openai'', max_requests = 60, window_seconds = 60, redis = True\<rparr>"

definition empty_store :: counter_store where
  "empty_store = \<lparr>refused = (\<lambda>c. False), entries = (\<lambda>k. None)\<rparr>"



text \<open>A store in which sixty requests of the window ending at second 60 are counted.\<close>

definition full_store :: counter_store where
  "full_store =
     \<lparr>refused = (\<lambda>c. False),
      entries = (\<lambda>k. if k = ''openai:generate_embedding'' then Some (60, Some 60) else None)\<rparr>"

text \<open>Stand-ins for the collaborators outside the repository, used to run the model on
  concrete inputs: a tokenizer giving one token per character and raising on a text that
  holds the character \<open><\<close> (as a special token would), a provider answering with a
  one-component vector, the cosine distance over the reals, and \<open>ILIKE\<close> with its two
  wildcards over ASCII letters.\<close>

definition char_tokens :: "py_str \<Rightarrow> error + nat list" where
  "char_tokens s = (if 60 \<in> set s then Inl (ValueError ''special token'') else Inr s)"

definition short_provider :: "py_str \<Rightarrow> error + real list" where
  "short_provider t = Inr [1 / 2]"

definition dot :: "real list \<Rightarrow> real list \<Rightarrow> real" where
  "dot a b = sum_list (map (\<lambda>(x, y). x * y) (zip a b))"

definition cosine_distance :: "real list \<Rightarrow> real list \<Rightarrow> real" where
  "cosine_distance a b = 1 - dot a b / (sqrt (dot a a) * sqrt (dot b b))"

definition lower :: "char \<Rightarrow> nat" where
  "lower c =
     (let n = (of_char c :: nat)
      in if 65 \<le> n \<and> n \<le> 90 then n + 32 else n)"

fun ilike_match :: "string \<Rightarrow> string \<Rightarrow> bool" where
  "ilike_match s [] = (s = [])"
| "ilike_match s (p # ps) =
     (if p = CHR ''%''
      then ilike_match s ps \<or> (case s of [] \<Rightarrow> False | c # cs \<Rightarrow> ilike_match cs (p # ps))
      else (case s of
              [] \<Rightarrow> False
            | c # cs \<Rightarrow> (p = CHR ''_'' \<or> lower c = lower p) \<and> ilike_match cs ps))"

definition example_job :: "nat \<Rightarrow> string \<Rightarrow> string \<Rightarrow> job" where
  "example_job i title loc =
     \<lparr>job_id = i, job_title = title, location = loc, service = ''Audit'',
      seniority = ''Senior'', description = ''Audit role'', is_indexed = True,
      embedding = None\<rparr>"

definition example_user :: user where
  "example_user =
     \<lparr>user_id = 1, telegram_id = 7, cv_text = Some ''CV'', cv_embedding = Some [1, 0],
      preferences = None\<rparr>"

text \<open>One user with a CV embedding, three jobs with embeddings of cosine similarity 1, 0
  and -1 to that user's vector, no CV rows and no match rows.\<close>

definition example_db :: database where
  "example_db =
     \<lparr>users = [example_user],
      jobs = [example_job 1 ''Senior Auditor'' ''London'',
              example_job 2 ''Tax Manager'' ''Leeds'',
              example_job 3 ''Payroll Clerk'' ''London''],
      job_embeddings = (\<lambda>i. if i = 1 then Some [1, 0]
                              else if i = 2 then Some [0, 1]
                              else if i = 3 then Some [- 1, 0] else None),
      cvs = [],
      job_matches = []\<rparr>"

section \<open>The rate limiter: properties\<close>

lemma get_limit_info_store: "snd (get_limit_info rl st now i) = st"
  by (simp add: get_limit_info_def redis_get_def redis_ttl_def split: option.splits)

lemma window_end_after: "0 < window_seconds rl \<Longrightarrow> now < window_start rl now + window_seconds rl"
proof -
  assume w: "0 < window_seconds rl"
  have "now mod window_seconds rl < window_seconds rl" using w by simp
  moreover have "now mod window_seconds rl \<le> now" by simp
  ultimately show ?thesis unfolding window_start_def by linarith
qed

lemma up_entries_update: "up (st\<lparr>entries := f\<rparr>) = up st"
  by (simp add: up_def)

lemma live_upd_same:
  "live (st\<lparr>entries := (entries st)(k \<mapsto> (c, e))\<rparr>) now k =
     (case e of None \<Rightarrow> Some (c, None) | Some t \<Rightarrow> if now < t then Some (c, Some t) else None)"
  by (simp add: live_def split: option.splits)

lemma get_limit_info_up:
  assumes "redis rl" "0 < window_seconds rl" "up st"
  shows "fst (get_limit_info rl st now i) =
           Inr \<lparr>remaining = (case live st now (get_key rl i) of None \<Rightarrow> max_requests rl
                               | Some (c, e) \<Rightarrow> max 0 (max_requests rl - c)),
                 reset_at = window_start rl now + window_seconds rl,
                 total = max_requests rl\<rparr>"
  using assms
  by (auto simp add: get_limit_info_def redis_get_def redis_ttl_def up_def split: option.splits)

lemma get_limit_info_cases:
  assumes "redis rl" "0 < window_seconds rl"
  shows "(\<exists>info. get_limit_info rl st now i = (Inr info, st))
         \<or> get_limit_info rl st now i = (Inl RedisError, st)"
  using assms
  by (auto simp add: get_limit_info_def redis_get_def redis_ttl_def split: option.splits)

lemma acquire_fresh:
  assumes "redis rl" "0 < window_seconds rl" "up st" "live st now (get_key rl i) = None"
  shows "acquire rl st now i =
     ((if 1 > max_requests rl then Inl (AttributeError ''context'') else Inr ()),
      st\<lparr>entries := (entries st)(get_key rl i \<mapsto> (1, Some (window_start rl now + window_seconds rl)))\<rparr>)"
proof -
  let ?k = "get_key rl i"
  let ?e = "window_start rl now + window_seconds rl"
  let ?st1 = "st\<lparr>entries := (entries st)(?k \<mapsto> (1, None))\<rparr>"
  let ?st2 = "st\<lparr>entries := (entries st)(?k \<mapsto> (1, Some ?e))\<rparr>"
  have lt: "now < ?e" using assms(2) by (rule window_end_after)
  have i1: "redis_incr st now ?k = Inr (1, ?st1)"
    using assms by (simp add: redis_incr_def up_def)
  have e1: "redis_expireat ?st1 now ?k ?e = Inr ?st2"
    using assms lt by (simp add: redis_expireat_def live_upd_same up_def)
  show ?thesis
    unfolding acquire_def
    using assms(1,2) i1 e1 get_limit_info_cases[OF assms(1,2), of ?st2 now i]
    by (auto simp add: raise_RateLimitError_def JobMatchingError_init_def)
qed

lemma acquire_live:
  assumes "redis rl" "0 < window_seconds rl" "up st"
    "live st now (get_key rl i) = Some (c, e)" "c \<noteq> 0"
  shows "acquire rl st now i =
     ((if c + 1 > max_requests rl then Inl (AttributeError ''context'') else Inr ()),
      st\<lparr>entries := (entries st)(get_key rl i \<mapsto> (c + 1, e))\<rparr>)"
proof -
  let ?k = "get_key rl i"
  let ?st1 = "st\<lparr>entries := (entries st)(?k \<mapsto> (c + 1, e))\<rparr>"
  have i1: "redis_incr st now ?k = Inr (c + 1, ?st1)"
    using assms by (simp add: redis_incr_def up_def)
  show ?thesis
    unfolding acquire_def
    using assms(1,2,5) i1 get_limit_info_cases[OF assms(1,2), of ?st1 now i]
    by (auto simp add: raise_RateLimitError_def JobMatchingError_init_def)
qed

lemma acquire_all_live:
  assumes "redis rl" "0 < window_seconds rl"
  shows "up st \<Longrightarrow> entries st (get_key rl i) = Some (c, Some e) \<Longrightarrow> 0 < c \<Longrightarrow>
         \<forall>t \<in> set ts. window_start rl t + window_seconds rl = e \<Longrightarrow>
         acquire_all rl st ts i =
           (map (\<lambda>n. if c + int n + 1 > max_requests rl
                      then Inl (AttributeError ''context'') else Inr ()) [0..<length ts],
            st\<lparr>entries := (entries st)(get_key rl i \<mapsto> (c + int (length ts), Some e))\<rparr>)"
proof (induction ts arbitrary: st c)
  case Nil
  then show ?case by (simp add: fun_upd_idem)
next
  case (Cons t ts)
  let ?k = "get_key rl i"
  let ?st1 = "st\<lparr>entries := (entries st)(?k \<mapsto> (c + 1, Some e))\<rparr>"
  have te: "window_start rl t + window_seconds rl = e" using Cons.prems by simp
  have lt: "t < e" using window_end_after[OF assms(2), of t] te by simp
  have lv: "live st t ?k = Some (c, Some e)" using Cons.prems lt by (simp add: live_def)
  have a1: "acquire rl st t i =
     ((if c + 1 > max_requests rl then Inl (AttributeError ''context'') else Inr ()), ?st1)"
    using acquire_live[OF assms Cons.prems(1) lv] Cons.prems(3) by simp
  have ar: "c + 1 + int (length ts) = c + int (length (t # ts))" by simp
  have ar2: "\<And>n. c + 1 + int n + 1 = c + int (Suc n) + 1" by simp
  have ih0: "acquire_all rl ?st1 ts i =
           (map (\<lambda>n. if (c + 1) + int n + 1 > max_requests rl
                      then Inl (AttributeError ''context'') else Inr ()) [0..<length ts],
            ?st1\<lparr>entries := (entries ?st1)(?k \<mapsto> ((c + 1) + int (length ts), Some e))\<rparr>)"
    using Cons.prems by (intro Cons.IH) (simp_all add: up_entries_update)
  have st_eq: "?st1\<lparr>entries := (entries ?st1)(?k \<mapsto> ((c + 1) + int (length ts), Some e))\<rparr>
       = st\<lparr>entries := (entries st)(?k \<mapsto> (c + int (length (t # ts)), Some e))\<rparr>"
    unfolding ar by simp
  have ih: "acquire_all rl ?st1 ts i =
           (map (\<lambda>n. if c + int (Suc n) + 1 > max_requests rl
                      then Inl (AttributeError ''context'') else Inr ()) [0..<length ts],
            st\<lparr>entries := (entries st)(?k \<mapsto> (c + int (length (t # ts)), Some e))\<rparr>)"
    using ih0 unfolding st_eq ar2 .
  have shift: "[0..<length (t # ts)] = 0 # map Suc [0..<length ts]"
    by (simp add: upt_conv_Cons map_Suc_upt del: upt_Suc)
  have step: "acquire_all rl st (t # ts) i =
      ((if c + 1 > max_requests rl then Inl (AttributeError ''context'') else Inr ())
         # fst (acquire_all rl ?st1 ts i), snd (acquire_all rl ?st1 ts i))"
    by (subst acquire_all.simps, subst a1) (simp only: prod.case case_prod_beta fst_conv snd_conv)
  show ?case
    unfolding step ih shift fst_conv snd_conv
    by (simp add: fun_upd_def)
qed

text \<open>
  Claim C3, as the code has it. The counter of an identity lives in one key. In a run of
  \<open>acquire\<close> calls whose times all fall into one window aligned to multiples of
  \<open>window_seconds\<close>, starting with no live key and a store that answers: the first call
  sets the key to expire at the end of that aligned window
  (\<open>window_start + window_seconds\<close>); call number \<open>n + 1\<close> succeeds exactly when
  \<open>n < max_requests\<close>, so the first \<open>L\<close> calls succeed and every later one fails, with
  the exception in which the \<open>raise\<close> statement of the exhausted budget ends; every call,
  rejected ones included, increments the counter; and at or after the end of the window a
  call succeeds again (for a limit of at least one).
\<close>

theorem acquire_window_boundary:
  assumes "redis rl" and "0 < window_seconds rl" and "up st"
    and "live st t0 (get_key rl i) = None"
    and "\<forall>t \<in> set ts. window_start rl t = window_start rl t0"
    and "window_start rl t0 + window_seconds rl \<le> t1"
    and "1 \<le> max_requests rl"
  shows "entries (snd (acquire rl st t0 i)) (get_key rl i)
           = Some (1, Some (window_start rl t0 + window_seconds rl))
       \<and> fst (acquire_all rl st (t0 # ts) i)
           = map (\<lambda>n. if int n < max_requests rl then Inr ()
                       else Inl (AttributeError ''context''))
                 [0..<Suc (length ts)]
       \<and> current_count (snd (acquire_all rl st (t0 # ts) i)) t0 (get_key rl i)
           = 1 + int (length ts)
       \<and> fst (acquire rl (snd (acquire_all rl st (t0 # ts) i)) t1 i) = Inr ()"
proof -
  let ?k = "get_key rl i"
  let ?e = "window_start rl t0 + window_seconds rl"
  let ?st1 = "st\<lparr>entries := (entries st)(?k \<mapsto> (1, Some ?e))\<rparr>"
  let ?st2 = "?st1\<lparr>entries := (entries ?st1)(?k \<mapsto> (1 + int (length ts), Some ?e))\<rparr>"
  have lt: "t0 < ?e" using assms(2) by (rule window_end_after)
  have a0: "acquire rl st t0 i =
     ((if 1 > max_requests rl then Inl (AttributeError ''context'') else Inr ()), ?st1)"
    using acquire_fresh[OF assms(1-4)] .
  have up1: "up ?st1" using assms(3) by (simp add: up_entries_update)
  have e1: "entries ?st1 ?k = Some (1, Some ?e)" by simp
  have same: "\<forall>t \<in> set ts. window_start rl t + window_seconds rl = ?e"
    using assms(5) by simp
  have rest: "acquire_all rl ?st1 ts i =
           (map (\<lambda>n. if 1 + int n + 1 > max_requests rl
                      then Inl (AttributeError ''context'') else Inr ()) [0..<length ts], ?st2)"
    using acquire_all_live[OF assms(1,2) up1 e1 _ same] by simp
  have shift: "[0..<Suc (length ts)] = 0 # map Suc [0..<length ts]"
    by (simp add: upt_conv_Cons map_Suc_upt del: upt_Suc)
  have all: "acquire_all rl st (t0 # ts) i =
      (map (\<lambda>n. if int n < max_requests rl then Inr ()
                 else Inl (AttributeError ''context'')) [0..<Suc (length ts)], ?st2)"
    unfolding shift acquire_all.simps a0 prod.case rest
    using assms(7) by auto
  have c1: "entries (snd (acquire rl st t0 i)) ?k = Some (1, Some ?e)"
    unfolding a0 by simp
  have l2: "live ?st2 t0 ?k = Some (1 + int (length ts), Some ?e)"
    using lt by (simp add: live_def)
  have c3: "current_count ?st2 t0 ?k = 1 + int (length ts)"
    unfolding current_count_def l2 by simp
  have up2: "up ?st2" using assms(3) by (simp add: up_entries_update)
  have l3: "live ?st2 t1 ?k = None"
    using assms(6) by (simp add: live_def)
  have c4: "fst (acquire rl ?st2 t1 i) = Inr ()"
    using acquire_fresh[OF assms(1,2) up2 l3] assms(7) by simp
  show ?thesis
    unfolding all using c1 c3 c4 by simp
qed

text \<open>A limit of two: three calls at seconds 30, 40 and 59, then one at second 60.\<close>

theorem acquire_window_boundary_witness:
  "fst (acquire_all (openai_rate_limiter\<lparr>max_requests := 2\<rparr>) empty_store [30, 40, 59] ''f'')
     = [Inr (), Inr (), Inl (AttributeError ''context'')]
   \<and> fst (acquire (openai_rate_limiter\<lparr>max_requests := 2\<rparr>)
            (snd (acquire_all (openai_rate_limiter\<lparr>max_requests := 2\<rparr>) empty_store
                    [30, 40, 59] ''f'')) 60 ''f'') = Inr ()"
  using acquire_window_boundary
          [of "openai_rate_limiter\<lparr>max_requests := 2\<rparr>" empty_store 30 "''f''" "[40, 59]" 60]
  by (simp add: openai_rate_limiter_def empty_store_def live_def window_start_def up_def
        upt_conv_Cons del: upt_Suc)

text \<open>
  The expiry is not the window length: a first call at second 30 of a 60-second window
  leaves a time to live of 30 seconds. Measured from the first increment, a limit of one
  lets two calls through within two seconds (seconds 59 and 60).
\<close>

theorem acquire_expiry_counterexample:
  "map_sum id fst
     (redis_ttl (snd (acquire openai_rate_limiter empty_store 30 ''generate_embedding'')) 30
        ''openai:generate_embedding'') = Inr 30
   \<and> int (window_seconds openai_rate_limiter) = 60
   \<and> fst (acquire_all (openai_rate_limiter\<lparr>max_requests := 1\<rparr>) empty_store [59, 60]
            ''generate_embedding'') = [Inr (), Inr ()]"
  by (simp add: acquire_def redis_incr_def redis_expireat_def redis_ttl_def live_def
        get_key_def window_start_def openai_rate_limiter_def empty_store_def)

lemma get_limit_info_all_store: "get_limit_info_all rl st ts i = st"
  by (induction ts arbitrary: st) (simp_all add: get_limit_info_store)

text \<open>
  Claim C9. \<open>get_limit_info\<close> leaves the store as it found it, so an \<open>acquire\<close> after
  any run of \<open>get_limit_info\<close> calls behaves as it would have without them; with an
  initialised limiter, a reachable store and a non-negative limit it returns the limit
  minus the current count, never below zero, and the end of the current window.
\<close>

theorem get_limit_info_read_only:
  "snd (get_limit_info rl st now i) = st
   \<and> acquire rl (get_limit_info_all rl st ts i) t i = acquire rl st t i
   \<and> (redis rl \<and> 0 < window_seconds rl \<and> up st \<and> 0 \<le> max_requests rl \<longrightarrow>
        fst (get_limit_info rl st now i) =
          Inr \<lparr>remaining = max 0 (max_requests rl - current_count st now (get_key rl i)),
                reset_at = window_start rl now + window_seconds rl,
                total = max_requests rl\<rparr>)"
proof -
  have a: "snd (get_limit_info rl st now i) = st" by (rule get_limit_info_store)
  have b: "acquire rl (get_limit_info_all rl st ts i) t i = acquire rl st t i"
    by (simp add: get_limit_info_all_store)
  have c: "fst (get_limit_info rl st now i) =
          Inr \<lparr>remaining = max 0 (max_requests rl - current_count st now (get_key rl i)),
                reset_at = window_start rl now + window_seconds rl,
                total = max_requests rl\<rparr>"
    if h: "redis rl" "0 < window_seconds rl" "up st" "0 \<le> max_requests rl"
    using get_limit_info_up[OF h(1-3), of now i] h(4)
    by (simp add: current_count_def split: option.splits)
  show ?thesis using a b c by blast
qed

theorem get_limit_info_read_only_witness:
  "fst (get_limit_info openai_rate_limiter full_store 30 ''generate_embedding'')
     = Inr \<lparr>remaining = 0, reset_at = 60, total = 60\<rparr>
   \<and> snd (get_limit_info openai_rate_limiter full_store 30 ''generate_embedding'') = full_store"
  using get_limit_info_read_only
          [of openai_rate_limiter full_store 30 "''generate_embedding''" "[]" 0]
  by (simp add: openai_rate_limiter_def full_store_def current_count_def live_def get_key_def
        window_start_def up_def)





lemma acquire_count:
  assumes "redis rl" "0 < window_seconds rl" "up st"
  shows "current_count (snd (acquire rl st now i)) now (get_key rl i)
           = current_count st now (get_key rl i) + 1"
proof (cases "live st now (get_key rl i)")
  case None
  have lt: "now < window_start rl now + window_seconds rl"
    using assms(2) by (rule window_end_after)
  show ?thesis
    unfolding acquire_fresh[OF assms None] using None lt
    by (simp add: current_count_def live_def)
next
  case (Some ce)
  obtain c e where ce: "ce = (c, e)" by (cases ce)
  have lv: "live st now (get_key rl i) = Some (c, e)" using Some ce by simp
  have lt: "now < window_start rl now + window_seconds rl"
    using assms(2) by (rule window_end_after)
  show ?thesis
  proof (cases "c = 0")
    case False
    have "case e of None \<Rightarrow> True | Some t \<Rightarrow> now < t"
      using lv by (auto simp: live_def split: option.splits if_splits)
    then show ?thesis
      unfolding acquire_live[OF assms lv False] using lv
      by (simp add: current_count_def live_def split: option.splits)
  next
    case True
    let ?k = "get_key rl i"
    let ?e = "window_start rl now + window_seconds rl"
    let ?st1 = "st\<lparr>entries := (entries st)(?k \<mapsto> (1, e))\<rparr>"
    let ?st2 = "st\<lparr>entries := (entries st)(?k \<mapsto> (1, Some ?e))\<rparr>"
    have le: "case e of None \<Rightarrow> True | Some t \<Rightarrow> now < t"
      using lv by (auto simp: live_def split: option.splits if_splits)
    have i1: "redis_incr st now ?k = Inr (1, ?st1)"
      using assms lv True by (simp add: redis_incr_def up_def)
    have l1: "live ?st1 now ?k = Some (1, e)"
      using le by (simp add: live_def split: option.splits)
    have e1: "redis_expireat ?st1 now ?k ?e = Inr ?st2"
      using assms lt l1 by (simp add: redis_expireat_def up_def)
    have s: "snd (acquire rl st now i) = ?st2"
      unfolding acquire_def using assms(1,2) i1 e1 get_limit_info_store[of rl ?st2 now i]
      by (auto split: prod.splits sum.splits error.splits)
    show ?thesis
      unfolding s using lv True lt by (simp add: current_count_def live_def)
  qed
qed

section \<open>The embedding service: properties\<close>

lemma rate_limited_store:
  "snd (rate_limited rl name body st now) = snd (acquire rl st now name)"
  by (simp add: rate_limited_def split: prod.splits sum.splits)

lemma rate_limited_result:
  "fst (rate_limited rl name body st now) =
     (case fst (acquire rl st now name) of Inl e \<Rightarrow> Inl e | Inr u \<Rightarrow> body)"
  by (simp add: rate_limited_def split: prod.splits sum.splits)

text \<open>
  Claim C10. \<open>generate_embedding\<close> runs under the limiter's wrapper, which acquires
  before the body validates: with an initialised limiter and a reachable store the call
  leaves the store exactly as one \<open>acquire\<close> under the name \<open>generate_embedding\<close>
  does, the counter of that key is one higher than before whatever the outcome, and a
  text that fails validation makes the call fail.
\<close>

theorem generate_embedding_consumes_slot:
  assumes "redis rl" and "0 < window_seconds rl" and "up st"
  shows "snd (generate_embedding rl encode provider st now text)
           = snd (acquire rl st now ''generate_embedding'')
       \<and> current_count (snd (generate_embedding rl encode provider st now text)) now
             (get_key rl ''generate_embedding'')
           = current_count st now (get_key rl ''generate_embedding'') + 1
       \<and> (isl (validate_text encode text) \<longrightarrow>
             isl (fst (generate_embedding rl encode provider st now text)))"
proof -
  have s: "snd (generate_embedding rl encode provider st now text)
           = snd (acquire rl st now ''generate_embedding'')"
    by (simp add: generate_embedding_def rate_limited_store)
  have c: "current_count (snd (acquire rl st now ''generate_embedding'')) now
             (get_key rl ''generate_embedding'')
           = current_count st now (get_key rl ''generate_embedding'') + 1"
    using assms by (rule acquire_count)
  have v: "isl (fst (generate_embedding rl encode provider st now text))"
    if "isl (validate_text encode text)"
    using that
    by (auto simp add: generate_embedding_def rate_limited_result generate_embedding_body_def
          isl_def split: sum.splits)
  show ?thesis using s c v by simp
qed

text \<open>The empty text: the call ends in the exception of the body's handler, and the
  counter stands at one.\<close>

theorem generate_embedding_consumes_slot_witness:
  "fst (generate_embedding openai_rate_limiter char_tokens short_provider empty_store 30 [])
     = Inl (AttributeError ''context'')
   \<and> current_count
        (snd (generate_embedding openai_rate_limiter char_tokens short_provider empty_store 30 []))
        30 ''openai:generate_embedding'' = 1"
proof -
  have r: "fst (generate_embedding openai_rate_limiter char_tokens short_provider empty_store 30 [])
     = Inl (AttributeError ''context'')"
    by (simp add: generate_embedding_def rate_limited_def generate_embedding_body_def
          validate_text_def acquire_def redis_incr_def redis_expireat_def live_def get_key_def
          window_start_def openai_rate_limiter_def empty_store_def raise_OpenAIError_def
          JobMatchingError_init_def)
  have h: "redis openai_rate_limiter" "0 < window_seconds openai_rate_limiter" "up empty_store"
    by (simp_all add: openai_rate_limiter_def empty_store_def up_def)
  have c: "current_count
        (snd (generate_embedding openai_rate_limiter char_tokens short_provider empty_store 30 []))
        30 (get_key openai_rate_limiter ''generate_embedding'')
      = current_count empty_store 30 (get_key openai_rate_limiter ''generate_embedding'') + 1"
    using generate_embedding_consumes_slot [OF h, of char_tokens short_provider 30 "[]"]
    by blast
  have k: "get_key openai_rate_limiter ''generate_embedding'' = ''openai:generate_embedding''"
    by (simp add: get_key_def openai_rate_limiter_def)
  have z: "current_count empty_store 30 ''openai:generate_embedding'' = 0"
    by (simp add: current_count_def live_def empty_store_def)
  show ?thesis using r c unfolding k z by simp
qed

lemma py_strip_decompose:
  "\<exists>a b. s = a @ py_strip s @ b \<and> list_all py_isspace a \<and> list_all py_isspace b"
proof -
  let ?d = "dropWhile py_isspace s"
  let ?a = "takeWhile py_isspace s"
  let ?b = "rev (takeWhile py_isspace (rev ?d))"
  have "rev ?d = takeWhile py_isspace (rev ?d) @ dropWhile py_isspace (rev ?d)" by simp
  then have "?d = rev (dropWhile py_isspace (rev ?d)) @ rev (takeWhile py_isspace (rev ?d))"
    by (metis rev_append rev_rev_ident)
  then have d: "?d = py_strip s @ ?b" by (simp add: py_strip_def)
  have "s = ?a @ ?d" by simp
  then have "s = ?a @ py_strip s @ ?b" using d by simp
  moreover have "list_all py_isspace ?a"
    by (simp add: list_all_iff) (meson set_takeWhileD)
  moreover have "list_all py_isspace ?b"
    by (simp add: list_all_iff) (meson set_takeWhileD)
  ultimately show ?thesis by blast
qed

text \<open>
  Claim C5, as the code has it. The empty string fails validation. A non-empty text is
  cleaned (newlines to spaces, whitespace stripped at both ends) and fails when the
  tokenizer raises on the cleaned text or counts more than 8191 tokens in it; every other
  text passes, and the text returned is the cleaned text in full: the input with newlines
  replaced, less whitespace at its two ends, and within the token budget. The emptiness
  test reads the text before it is cleaned.
\<close>

theorem validate_text_contract:
  "(text = [] \<longrightarrow> isl (validate_text encode text))
   \<and> (\<forall>tokens. text \<noteq> [] \<and> encode (py_strip (replace_newlines text)) = Inr tokens
         \<and> length tokens > 8191 \<longrightarrow> isl (validate_text encode text))
   \<and> (\<forall>e. text \<noteq> [] \<and> encode (py_strip (replace_newlines text)) = Inl e \<longrightarrow>
         validate_text encode text = Inl e)
   \<and> (\<forall>tokens. text \<noteq> [] \<and> encode (py_strip (replace_newlines text)) = Inr tokens
         \<and> length tokens \<le> 8191 \<longrightarrow>
         validate_text encode text = Inr (py_strip (replace_newlines text)))
   \<and> (\<forall>t. validate_text encode text = Inr t \<longrightarrow>
        (\<exists>tokens. encode t = Inr tokens \<and> length tokens \<le> 8191)
        \<and> (\<exists>a b. replace_newlines text = a @ t @ b
                 \<and> list_all py_isspace a \<and> list_all py_isspace b))"
proof -
  have d: "\<exists>a b. replace_newlines text = a @ t @ b \<and> list_all py_isspace a \<and> list_all py_isspace b"
    if "validate_text encode text = Inr t" for t
  proof -
    have "t = py_strip (replace_newlines text)"
      using that by (auto simp add: validate_text_def Let_def split: if_splits sum.splits)
    then show ?thesis using py_strip_decompose[of "replace_newlines text"] by simp
  qed
  have b: "\<exists>tokens. encode t = Inr tokens \<and> length tokens \<le> 8191"
    if "validate_text encode text = Inr t" for t
    using that
    by (auto simp add: validate_text_def Let_def max_text_length_def split: if_splits sum.splits)
  have rest: "(text = [] \<longrightarrow> isl (validate_text encode text))
   \<and> (\<forall>tokens. text \<noteq> [] \<and> encode (py_strip (replace_newlines text)) = Inr tokens
         \<and> length tokens > 8191 \<longrightarrow> isl (validate_text encode text))
   \<and> (\<forall>e. text \<noteq> [] \<and> encode (py_strip (replace_newlines text)) = Inl e \<longrightarrow>
         validate_text encode text = Inl e)
   \<and> (\<forall>tokens. text \<noteq> [] \<and> encode (py_strip (replace_newlines text)) = Inr tokens
         \<and> length tokens \<le> 8191 \<longrightarrow>
         validate_text encode text = Inr (py_strip (replace_newlines text)))"
    by (simp add: validate_text_def Let_def max_text_length_def)
  show ?thesis using rest d b by blast
qed

text \<open>The text \<open>tax  audit\<close> passes and comes back whole; the empty text fails; the text
  \<open><|endoftext|>\<close> fails in the tokenizer.\<close>

theorem validate_text_contract_witness:
  "validate_text char_tokens [116, 97, 120, 32, 32, 97, 117, 100, 105, 116]
     = Inr [116, 97, 120, 32, 32, 97, 117, 100, 105, 116]
   \<and> validate_text char_tokens [] = Inl (TypeError ''ValidationError'')
   \<and> validate_text char_tokens [60, 124, 101, 110, 100, 111, 102, 116, 101, 120, 116, 124, 62]
     = Inl (ValueError ''special token'')"
proof -
  have c1: "py_strip (replace_newlines [116, 97, 120, 32, 32, 97, 117, 100, 105, 116])
              = [116, 97, 120, 32, 32, 97, 117, 100, 105, 116]"
    by (simp add: py_strip_def replace_newlines_def py_isspace_def)
  have c2: "py_strip (replace_newlines
              [60, 124, 101, 110, 100, 111, 102, 116, 101, 120, 116, 124, 62])
              = [60, 124, 101, 110, 100, 111, 102, 116, 101, 120, 116, 124, 62]"
    by (simp add: py_strip_def replace_newlines_def py_isspace_def)
  have e: "validate_text char_tokens [] = Inl (TypeError ''ValidationError'')"
    by (simp add: validate_text_def raise_ValidationError_def)
  show ?thesis
    using validate_text_contract [of "[116, 97, 120, 32, 32, 97, 117, 100, 105, 116]" char_tokens]
          validate_text_contract
            [of "[60, 124, 101, 110, 100, 111, 102, 116, 101, 120, 116, 124, 62]" char_tokens]
          e
    unfolding c1 c2 by (simp add: char_tokens_def)
qed

text \<open>A text of three spaces is empty after trimming and passes validation.\<close>

theorem validate_text_blank_counterexample:
  "py_strip [32, 32, 32] = [] \<and> validate_text char_tokens [32, 32, 32] = Inr []"
  by (simp add: validate_text_def py_strip_def replace_newlines_def py_isspace_def
        char_tokens_def max_text_length_def)

text \<open>
  Claim C4, as the code has it. \<open>generate_embedding\<close> returns a vector exactly when the
  limiter admits the call, the text passes validation and the provider answers the cleaned
  text with that vector: the vector is handed back as it came, whatever its length, and
  no length is compared with a configured dimension.
\<close>

theorem embedding_returned_unchecked:
  "fst (generate_embedding rl encode provider st now text) = Inr v \<longleftrightarrow>
     fst (acquire rl st now ''generate_embedding'') = Inr ()
     \<and> (\<exists>t. validate_text encode text = Inr t \<and> provider t = Inr v)"
  by (cases "fst (acquire rl st now ''generate_embedding'')";
      cases "validate_text encode text")
     (auto simp add: generate_embedding_def rate_limited_result generate_embedding_body_def
        split: sum.splits)

text \<open>The text \<open>test\<close> and a provider answering with a one-component vector.\<close>

theorem embedding_returned_unchecked_witness:
  "fst (generate_embedding openai_rate_limiter char_tokens short_provider empty_store 30
          [116, 101, 115, 116]) = Inr [1 / 2]"
proof -
  have acq: "fst (acquire openai_rate_limiter empty_store 30 ''generate_embedding'') = Inr ()"
    by (simp add: acquire_def redis_incr_def redis_expireat_def live_def get_key_def
          window_start_def openai_rate_limiter_def empty_store_def)
  have val: "validate_text char_tokens [116, 101, 115, 116] = Inr [116, 101, 115, 116]"
    by (simp add: validate_text_def py_strip_def replace_newlines_def py_isspace_def
          char_tokens_def max_text_length_def)
  have prov: "short_provider [116, 101, 115, 116] = Inr [1 / 2]"
    by (simp add: short_provider_def)
  show ?thesis
    using embedding_returned_unchecked
            [of openai_rate_limiter char_tokens short_provider empty_store 30
                "[116, 101, 115, 116]" "[1 / 2]"]
          acq val prov
    by blast
qed

text \<open>A provider answering with a one-component vector: \<open>generate_embedding\<close>
  returns that vector, whose length is not 1536.\<close>

theorem embedding_dimension_counterexample:
  "fst (generate_embedding openai_rate_limiter char_tokens short_provider empty_store 30
          [116, 101, 115, 116]) = Inr [1 / 2]
   \<and> length [1 / 2 :: real] \<noteq> 1536"
  by (simp add: generate_embedding_def rate_limited_def generate_embedding_body_def
        validate_text_def py_strip_def replace_newlines_def py_isspace_def char_tokens_def
        max_text_length_def short_provider_def acquire_def redis_incr_def redis_expireat_def
        live_def get_key_def window_start_def openai_rate_limiter_def empty_store_def)

section \<open>Similarity search and matching: properties\<close>








lemma cosine_distance_same: "cosine_distance [1, 0] [1, 0] = 0"
  by (simp add: cosine_distance_def dot_def)

lemma cosine_distance_orthogonal: "cosine_distance [0, 1] [1, 0] = 1"
  by (simp add: cosine_distance_def dot_def)

lemma cosine_distance_opposite: "cosine_distance [- 1, 0] [1, 0] = 2"
  by (simp add: cosine_distance_def dot_def)

lemma example_rows:
  "similar_rows cosine_distance example_db [1, 0] =
     [(example_job 1 ''Senior Auditor'' ''London'', 1),
      (example_job 2 ''Tax Manager'' ''Leeds'', 0),
      (example_job 3 ''Payroll Clerk'' ''London'', - 1)]"
  by (simp add: similar_rows_def example_db_def example_job_def cosine_distance_same
        cosine_distance_orthogonal cosine_distance_opposite)


lemma example_statement_london:
  "similar_jobs_sql cosine_distance ilike_match example_db [1, 0] (- 1) 10 (Some ''london'') None None
     = [(example_job 1 ''Senior Auditor'' ''London'', 1),
        (example_job 3 ''Payroll Clerk'' ''London'', - 1)]"
  by (simp add: similar_jobs_sql_def example_rows order_by_desc_def like_filter_def
        example_job_def lower_def)



text \<open>Every run of \<open>generate_recommendations\<close>, forced or not, ends in the
  \<open>NameError\<close> of its handler and leaves the database as it found it.\<close>

lemma generate_recommendations_raises:
  "generate_recommendations init_raises matching_init distance ilike db tid cv_emb prefs_arg force
     = (Inl (NameError ''SQLAlchemyError''), db)"
proof (cases init_raises)
  case (Some e)
  then show ?thesis by (simp add: generate_recommendations_def except_SQLAlchemyError_def)
next
  case None
  show ?thesis
  proof (cases "get_by_telegram_id db tid")
    case (Inl e)
    then show ?thesis using None
      by (simp add: generate_recommendations_def except_SQLAlchemyError_def)
  next
    case (Inr uo)
    show ?thesis
    proof (cases uo)
      case n: None
      then show ?thesis using None Inr
        by (simp add: generate_recommendations_def except_SQLAlchemyError_def)
    next
      case (Some u)
      have g: "\<exists>e. generate_job_matches matching_init distance ilike db tid q prefs
                 = (Inl e, db)" for q prefs
        by (cases matching_init)
           (simp_all add: generate_job_matches_def search_jobs_def get_repos_def init_guard_def)
      show ?thesis
      proof (cases force)
        case False
        then show ?thesis using None Inr Some
          by (simp add: generate_recommendations_def except_SQLAlchemyError_def
                should_generate_recommendations_def)
      next
        case True
        let ?own = "case cv_embedding u of None \<Rightarrow> [] | Some q \<Rightarrow> q"
        let ?given = "case cv_emb of None \<Rightarrow> [] | Some q \<Rightarrow> q"
        let ?stored = "case preferences u of None \<Rightarrow> [] | Some p \<Rightarrow> p"
        let ?prefs = "case prefs_arg of None \<Rightarrow> ?stored
                      | Some p \<Rightarrow> if p \<noteq> [] then p else ?stored"
        obtain e where "generate_job_matches matching_init distance ilike db tid
                          (if ?given \<noteq> [] then ?given else ?own) ?prefs = (Inl e, db)"
          using g by blast
        then show ?thesis using None Inr Some True
          by (simp add: generate_recommendations_def except_SQLAlchemyError_def Let_def)
      qed
    qed
  qed
qed

text \<open>
  Claim C1. A run of \<open>generate_recommendations\<close> without \<open>force\<close> writes no match
  row, so the match rows after a second run, made at any later time with any arguments,
  are the match rows after the first, and those are the rows that were there before:
  no record is added twice.
\<close>

theorem generate_recommendations_idempotent:
  "job_matches (snd (generate_recommendations init2 minit2 distance ilike
        (snd (generate_recommendations init1 minit1 distance ilike db tid cv_emb1 prefs1 False))
        tid cv_emb2 prefs2 False))
     = job_matches (snd (generate_recommendations init1 minit1 distance ilike db tid cv_emb1
                           prefs1 False))
   \<and> job_matches (snd (generate_recommendations init1 minit1 distance ilike db tid cv_emb1
                           prefs1 False))
     = job_matches db"
  by (simp add: generate_recommendations_raises)

section \<open>The embedding refresh task: properties\<close>

text \<open>Were the loop reached, no job would be counted as updated: the text of every job
  raises.\<close>

lemma refresh_loop_counts_nothing: "refresh_loop gen flush js n = n"
  by (induction js arbitrary: n) (simp_all add: refresh_item_def job_text_def)

text \<open>The function body, with a session that closes: it raises at the read of the work
  queue.\<close>

lemma update_job_embeddings_queue_missing:
  "update_job_embeddings gen flush commit None db batch_size
     = Inl (AttributeError ''get_jobs_needing_embedding_update'')"
  by (simp add: update_job_embeddings_def get_jobs_needing_embedding_update_def
        finally_close_def)

text \<open>
  Claim C7 at every input. A call of the task \<open>update_job_embeddings\<close> raises
  \<open>ImportError\<close> when its module is loaded; the function body, were it entered, raises as
  well, whatever the queue holds, and returns no summary.
\<close>

theorem update_job_embeddings_raises:
  "run_update_job_embeddings gen flush commit close db batch_size
     = Inl (ImportError ''JobProcessingError'')
   \<and> isl (update_job_embeddings gen flush commit close db batch_size)"
  by (cases close)
     (simp_all add: run_update_job_embeddings_def tasks_jobs_module_def update_job_embeddings_def
        get_jobs_needing_embedding_update_def finally_close_def)

end
